theory Spec2Isabelle
  imports Complex_Main
begin

section \<open>The training orchestrator of basetrainer.py\<close>

text \<open>
  A shallow embedding of the control logic of \<^verbatim>\<open>BaseTrainer\<close>
  (\<^verbatim>\<open>src/python/src/basetrainer.py\<close>): the constructor's micro-batch size, the
  gradient-accumulation loop \<^verbatim>\<open>train_loop\<close>, the evaluation loop \<^verbatim>\<open>test_loop\<close>, the
  epoch loop \<^verbatim>\<open>train\<close> and the reporting routine \<^verbatim>\<open>write_batch_statistics\<close>.

  Modelling decisions.
  \<^item> Python integers are \<open>int\<close>; counters that start at 0 and are only incremented
    (\<^verbatim>\<open>batch_index\<close>, \<^verbatim>\<open>real_batch_index\<close>, \<^verbatim>\<open>batches_num\<close>, \<^verbatim>\<open>global_train_index\<close>) are \<open>nat\<close>.
    Python's \<^verbatim>\<open>//\<close> and \<^verbatim>\<open>%\<close> round towards minus infinity, as \<open>div\<close> and \<open>mod\<close> on
    \<open>int\<close> do, and raise \<^verbatim>\<open>ZeroDivisionError\<close> on a zero divisor.
  \<^item> Loss and metric values (tensors and Python floats) are idealised as \<open>real\<close>:
    rounding is not modelled. Dividing a tensor by zero does not raise in the source
    (the result is not finite); the model never evaluates such a quotient, because in
    every path where the divider is zero the source raises on the following modulo.
  \<^item> An exception is a value \<open>Inl e\<close> of a sum type; it ends the call.
  \<^item> The calls the trainer makes on its collaborators (optimizer, gradient scaler,
    summary writer, checkpoint functions, \<^verbatim>\<open>print\<close>) are returned, in order, as a list of
    events next to the result.
  \<^item> The data loaders and the loss strategy of a subclass are outside the file. One
    pass over a loader is given as the list of what the strategy returns for each
    micro-batch, in the order of delivery; the loader's \<^verbatim>\<open>len\<close> is the length of that
    list (the loaders are built with \<^verbatim>\<open>shuffle=True\<close>, hence over sized datasets).
\<close>

subsection \<open>Errors, settings, events\<close>

datatype py_error = ZeroDivisionError | ValueError

record settings =
  learning_rate :: real
  epochs :: int
  batch_size :: int
  batch_size_divider :: int
  use_amp :: bool
  cuda :: bool
  data_loader_num_workers :: int
  train_image_size :: "int \<times> int"
  cell :: int
  write_statistics :: bool

datatype event =
    Print_epoch int
  | Print_loss real
  | Print_train_loss real
  | Print_test_loss real
  | Print_test_f1 real
  | Add_graph
  | Flush
  | Add_scalar string real int
  | Add_histogram string int
  | Add_image string int
  | Scaled_backward real
  | Backward real
  | Scaler_step
  | Scaler_update
  | Optimizer_step
  | Zero_grad
  | Create_adam real
  | Load_last_checkpoint
  | Train_init bool
  | Save_checkpoint string int

subsection \<open>The trainer object\<close>

text \<open>
  The seven \<^verbatim>\<open>last_*\<close> attributes are grouped in one record, since they are what a
  subclass's loss function writes. \<open>named_parameters\<close> is what
  \<^verbatim>\<open>self.model.named_parameters()\<close> shows when \<^verbatim>\<open>write_batch_statistics\<close> reads it: each
  name with whether \<^verbatim>\<open>param.grad is not None\<close>.
\<close>

record 'i snapshot =
  last_image :: "'i option"
  last_prob_map :: "'i option"
  last_labels :: "'i option"
  last_warped_image :: "'i option"
  last_warped_prob_map :: "'i option"
  last_warped_labels :: "'i option"
  last_valid_mask :: "'i option"

record 'i trainer =
  f1 :: real
  global_train_index :: nat
  snapshot :: "'i snapshot"
  named_parameters :: "(string \<times> bool) list"

subsection \<open>The constructor\<close>

definition py_floordiv :: "int \<Rightarrow> int \<Rightarrow> py_error + int" where
  "py_floordiv a b = (if b = 0 then Inl ZeroDivisionError else Inr (a div b))"

text \<open>
  \<^verbatim>\<open>__init__\<close>, lines 16-48. \<^verbatim>\<open>DataLoader\<close> belongs to the torch library and is a
  parameter here: it takes a dataset and the micro-batch size and returns a loader or
  raises. The constructor itself compares nothing; it computes
  \<^verbatim>\<open>batch_size // batch_size_divider\<close> and hands the quotient to both loaders.
\<close>

record ('l, 'i) base_trainer =
  train_dataloader :: 'l
  test_dataloader :: 'l
  state :: "'i trainer"

definition empty_snapshot :: "'i snapshot" where
  "empty_snapshot =
     \<lparr>last_image = None, last_prob_map = None, last_labels = None,
      last_warped_image = None, last_warped_prob_map = None,
      last_warped_labels = None, last_valid_mask = None\<rparr>"

definition init ::
  "('d \<Rightarrow> int \<Rightarrow> py_error + 'l) \<Rightarrow> settings \<Rightarrow> 'd \<Rightarrow> 'd \<Rightarrow> py_error + ('l, 'i) base_trainer"
where
  "init DataLoader cfg train_dataset test_dataset =
     (case py_floordiv (batch_size cfg) (batch_size_divider cfg) of
        Inl e \<Rightarrow> Inl e
      | Inr micro \<Rightarrow>
          (case DataLoader train_dataset micro of
             Inl e \<Rightarrow> Inl e
           | Inr trl \<Rightarrow>
               (case DataLoader test_dataset micro of
                  Inl e \<Rightarrow> Inl e
                | Inr tel \<Rightarrow>
                    Inr \<lparr>train_dataloader = trl, test_dataloader = tel,
                         state = \<lparr>f1 = 0, global_train_index = 0,
                                   snapshot = empty_snapshot,
                                   named_parameters = []\<rparr>\<rparr>)))"

subsection \<open>Reporting\<close>

fun str_contains :: "string \<Rightarrow> string \<Rightarrow> bool" where
  "str_contains sub [] = (sub = [])"
| "str_contains sub (c # cs) = (take (length sub) (c # cs) = sub \<or> str_contains sub cs)"

text \<open>
  \<^verbatim>\<open>add_image_summary\<close> and \<^verbatim>\<open>add_mask_image_summary\<close>, lines 58-87: the rendering is
  done by functions outside the file; what remains is the one \<^verbatim>\<open>add_image\<close> call, under
  the same tag pattern in both, keyed by \<^verbatim>\<open>global_train_index\<close>.
\<close>

definition add_image_summary :: "string \<Rightarrow> 'i trainer \<Rightarrow> event list" where
  "add_image_summary name st =
     [Add_image (''Detector '' @ name @ '' result/train'') (int (global_train_index st))]"

definition add_mask_image_summary :: "string \<Rightarrow> 'i trainer \<Rightarrow> event list" where
  "add_mask_image_summary name st =
     [Add_image (''Detector '' @ name @ '' result/train'') (int (global_train_index st))]"

definition param_histograms :: "'i trainer \<Rightarrow> string \<times> bool \<Rightarrow> event list" where
  "param_histograms st p =
     (case p of (name, has_grad) \<Rightarrow>
        if has_grad \<and> \<not> str_contains ''bn'' name
        then [Add_histogram (''params/'' @ name) (int (global_train_index st)),
              Add_histogram (''grads/'' @ name) (int (global_train_index st))]
        else [])"

text \<open>\<^verbatim>\<open>write_batch_statistics\<close>, lines 205-229.\<close>

definition write_batch_statistics ::
  "'i trainer \<Rightarrow> real \<Rightarrow> nat \<Rightarrow> event list \<times> 'i trainer"
where
  "write_batch_statistics st loss batch_index =
     (if batch_index mod 100 = 0 then
        ([Print_loss loss, Add_scalar ''Loss/train'' loss (int (global_train_index st))]
         @ concat (map (param_histograms st) (named_parameters st))
         @ (if last_image (snapshot st) \<noteq> None
            then add_image_summary ''normal'' st else [])
         @ (if last_warped_image (snapshot st) \<noteq> None
            then add_image_summary ''warped'' st @ add_mask_image_summary ''mask'' st
            else []),
         st\<lparr>global_train_index := global_train_index st + 1\<rparr>)
      else ([], st))"

subsection \<open>The gradient-accumulation loop\<close>

text \<open>
  The local variables of \<^verbatim>\<open>train_loop\<close> together with the trainer object. A training
  micro-batch is given by what \<^verbatim>\<open>train_loss_fn\<close> does on it: the loss it returns and
  what it writes into the snapshot attributes.
\<close>

record 'i train_vars =
  trainer_of :: "'i trainer"
  train_loss :: real
  batch_loss :: real
  real_batch_index :: nat

type_synonym 'i train_batch = "real \<times> ('i snapshot \<Rightarrow> 'i snapshot)"

text \<open>
  The body of the \<^verbatim>\<open>for\<close> loop, lines 95-138, at micro-batch \<open>batch_index\<close> of a loader
  of length \<open>n\<close>. With a zero divider the in-place tensor division of line 100/110 does
  not raise, the modulo of line 116 does.
\<close>

definition train_body ::
  "settings \<Rightarrow> nat \<Rightarrow> nat \<Rightarrow> 'i train_batch \<Rightarrow> 'i train_vars
     \<Rightarrow> py_error + (event list \<times> 'i train_vars)"
where
  "train_body cfg n batch_index b v =
     (if batch_size_divider cfg = 0 then Inl ZeroDivisionError
      else
        let st0 = (trainer_of v)\<lparr>snapshot := snd b (snapshot (trainer_of v))\<rparr>;
            loss = fst b / of_int (batch_size_divider cfg);
            ev0 = [if use_amp cfg then Scaled_backward loss else Backward loss];
            v1 = v\<lparr>trainer_of := st0, train_loss := train_loss v + loss,
                   batch_loss := batch_loss v + loss\<rparr>
        in if (int batch_index + 1) mod batch_size_divider cfg = 0 \<or> batch_index + 1 = n
           then
             let (ev1, st1) =
                   (if write_statistics cfg
                    then write_batch_statistics st0 (batch_loss v1) (real_batch_index v1)
                    else ([], st0));
                 ev2 = (if use_amp cfg then [Scaler_step, Scaler_update]
                        else [Optimizer_step]);
                 ev3 = [Zero_grad]
             in Inr (ev0 @ ev1 @ ev2 @ ev3,
                     v1\<lparr>trainer_of := st1, real_batch_index := real_batch_index v1 + 1,
                        batch_loss := 0\<rparr>)
           else Inr (ev0, v1))"

fun train_batches ::
  "settings \<Rightarrow> nat \<Rightarrow> nat \<Rightarrow> 'i train_batch list \<Rightarrow> 'i train_vars
     \<Rightarrow> py_error + (event list \<times> 'i train_vars)"
where
  "train_batches cfg n batch_index [] v = Inr ([], v)"
| "train_batches cfg n batch_index (b # bs) v =
     (case train_body cfg n batch_index b v of
        Inl e \<Rightarrow> Inl e
      | Inr (ev, v') \<Rightarrow>
          (case train_batches cfg n (Suc batch_index) bs v' of
             Inl e \<Rightarrow> Inl e
           | Inr (evs, v'') \<Rightarrow> Inr (ev @ evs, v'')))"

text \<open>
  \<^verbatim>\<open>train_loop\<close>, lines 89-141. The last line divides a Python float by the Python
  integer \<^verbatim>\<open>real_batch_index\<close>.
\<close>

definition train_loop ::
  "settings \<Rightarrow> 'i trainer \<Rightarrow> 'i train_batch list \<Rightarrow> py_error + (event list \<times> real \<times> 'i trainer)"
where
  "train_loop cfg st bs =
     (case train_batches cfg (length bs) 0 bs
             \<lparr>trainer_of = st, train_loss = 0, batch_loss = 0, real_batch_index = 0\<rparr> of
        Inl e \<Rightarrow> Inl e
      | Inr (evs, v) \<Rightarrow>
          if real_batch_index v = 0 then Inl ZeroDivisionError
          else Inr (evs, train_loss v / real (real_batch_index v), trainer_of v))"

subsection \<open>The evaluation loop\<close>

text \<open>
  An evaluation micro-batch is given by the loss \<^verbatim>\<open>test_loss_fn\<close> returns and the value
  of \<^verbatim>\<open>f1_metric\<close> on its softmax output. \<open>n\<close> is \<^verbatim>\<open>len(self.train_dataloader)\<close>, which is
  what line 159 reads.
\<close>

record 'i test_vars =
  tester_of :: "'i trainer"
  test_loss :: real
  batches_num :: nat

type_synonym test_batch = "real \<times> real"

definition test_body ::
  "settings \<Rightarrow> nat \<Rightarrow> nat \<Rightarrow> test_batch \<Rightarrow> 'i test_vars \<Rightarrow> py_error + 'i test_vars"
where
  "test_body cfg n batch_index b v =
     (if batch_size_divider cfg = 0 then Inl ZeroDivisionError
      else
        let st = tester_of v;
            v1 = v\<lparr>tester_of := st\<lparr>f1 := f1 st + snd b / of_int (batch_size_divider cfg)\<rparr>,
                   test_loss := test_loss v + fst b / of_int (batch_size_divider cfg)\<rparr>
        in if (int batch_index + 1) mod batch_size_divider cfg = 0 \<or> batch_index + 1 = n
           then Inr (v1\<lparr>batches_num := batches_num v1 + 1\<rparr>)
           else Inr v1)"

fun test_batches ::
  "settings \<Rightarrow> nat \<Rightarrow> nat \<Rightarrow> test_batch list \<Rightarrow> 'i test_vars \<Rightarrow> py_error + 'i test_vars"
where
  "test_batches cfg n batch_index [] v = Inr v"
| "test_batches cfg n batch_index (b # bs) v =
     (case test_body cfg n batch_index b v of
        Inl e \<Rightarrow> Inl e
      | Inr v' \<Rightarrow> test_batches cfg n (Suc batch_index) bs v')"

text \<open>
  \<^verbatim>\<open>test_loop\<close>, lines 143-163. Line 162 divides the Python number \<^verbatim>\<open>test_loss\<close> by the
  Python integer \<^verbatim>\<open>batches_num\<close>.
\<close>

definition test_loop ::
  "settings \<Rightarrow> nat \<Rightarrow> 'i trainer \<Rightarrow> test_batch list \<Rightarrow> py_error + ((real \<times> nat) \<times> 'i trainer)"
where
  "test_loop cfg n st bs =
     (case test_batches cfg n 0 bs \<lparr>tester_of = st, test_loss = 0, batches_num = 0\<rparr> of
        Inl e \<Rightarrow> Inl e
      | Inr v \<Rightarrow>
          if batches_num v = 0 then Inl ZeroDivisionError
          else Inr ((test_loss v / real (batches_num v), batches_num v), tester_of v))"

subsection \<open>The epoch loop\<close>

text \<open>
  The body of the loop of \<^verbatim>\<open>train\<close>, lines 185-203, on the micro-batches of one epoch.
  Line 195 divides by the \<^verbatim>\<open>batches_num\<close> that \<^verbatim>\<open>test_loop\<close> returned, which is never zero
  (lemma \<open>test_loop_batches_num_pos\<close> below).
\<close>

type_synonym 'i epoch_data = "'i train_batch list \<times> test_batch list"

definition epoch_body ::
  "settings \<Rightarrow> string \<Rightarrow> int \<Rightarrow> 'i epoch_data \<Rightarrow> 'i trainer
     \<Rightarrow> py_error + (event list \<times> 'i trainer)"
where
  "epoch_body cfg name epoch d st =
     (case train_loop cfg st (fst d) of
        Inl e \<Rightarrow> Inl e
      | Inr (ev1, loss, st1) \<Rightarrow>
          let ev2 = Print_train_loss loss
                    # (if write_statistics cfg then [Add_scalar ''Loss/train'' loss epoch]
                       else []);
              st2 = st1\<lparr>f1 := 0,
                        snapshot := (snapshot st1)\<lparr>last_image := None,
                                                   last_prob_map := None\<rparr>\<rparr>
          in (case test_loop cfg (length (fst d)) st2 (snd d) of
                Inl e \<Rightarrow> Inl e
              | Inr ((tloss, bn), st3) \<Rightarrow>
                  let st4 = st3\<lparr>f1 := f1 st3 / real bn\<rparr>;
                      ev3 = [Print_test_loss tloss, Print_test_f1 (f1 st4)]
                            @ (if write_statistics cfg
                               then [Add_scalar ''Loss/test'' tloss epoch,
                                     Add_scalar ''F1/test'' (f1 st4) epoch]
                               else []);
                      ev4 = [Save_checkpoint name epoch]
                  in Inr (Print_epoch epoch # ev1 @ ev2 @ ev3 @ ev4, st4)))"





subsection \<open>Notions used in the statements\<close>

text \<open>
  The test of lines 116-117 and 158-159: micro-batch \<open>j\<close> is a group boundary for
  divider \<open>d\<close> and loader length \<open>n\<close>.
\<close>

abbreviation closes :: "int \<Rightarrow> nat \<Rightarrow> nat \<Rightarrow> bool" where
  "closes d n j \<equiv> (int j + 1) mod d = 0 \<or> j + 1 = n"

text \<open>Concrete settings and a concrete trainer, on which the theorems are instantiated.\<close>

definition example_settings :: "int \<Rightarrow> bool \<Rightarrow> bool \<Rightarrow> settings" where
  "example_settings d amp stats =
     \<lparr>learning_rate = 1 / 1000, epochs = 2, batch_size = 32, batch_size_divider = d,
      use_amp = amp, cuda = False, data_loader_num_workers = 0,
      train_image_size = (240, 320), cell = 8, write_statistics = stats\<rparr>"

definition example_trainer :: "nat trainer" where
  "example_trainer =
     \<lparr>f1 = 0, global_train_index = 0, snapshot = empty_snapshot,
      named_parameters = [(''conv1.weight'', True), (''bn1.weight'', True)]\<rparr>"

text \<open>
  Classes of events. \<open>grad_event\<close>: the calls that produce, consume or clear gradients.
  \<open>step_of\<close>: the step under which a summary-writer call files its value; \<open>is_instr\<close>:
  the summary-writer calls; \<open>is_scalar\<close>: the scalar ones among them.
\<close>

fun grad_event :: "event \<Rightarrow> bool" where
  "grad_event (Scaled_backward x) = True"
| "grad_event (Backward x) = True"
| "grad_event Scaler_step = True"
| "grad_event Scaler_update = True"
| "grad_event Optimizer_step = True"
| "grad_event Zero_grad = True"
| "grad_event e = False"




text \<open>
  \<open>groups d n i k\<close>: how many of the \<open>k\<close> micro-batches from index \<open>i\<close> on are group
  boundaries. \<open>ticks ws r c\<close>: how many of the \<open>c\<close> commits from commit index \<open>r\<close> on have
  an index divisible by 100, when statistics are written (\<open>ws\<close>). \<open>tick\<close>: the
  condition under which the loop body at micro-batch \<open>i\<close>, with \<open>r\<close> groups closed so
  far, reports.
\<close>

definition groups :: "int \<Rightarrow> nat \<Rightarrow> nat \<Rightarrow> nat \<Rightarrow> nat" where
  "groups d n i k = length (filter (closes d n) [i..<i + k])"








text \<open>
  A loader constructor that rejects a batch size below 1 with \<^verbatim>\<open>ValueError\<close>, the way the
  batch sampler behind torch's \<^verbatim>\<open>DataLoader\<close> does; a loader is abstracted to its dataset
  and batch size.
\<close>

definition checking_loader :: "'d \<Rightarrow> int \<Rightarrow> py_error + ('d \<times> int)" where
  "checking_loader dataset b = (if b \<le> 0 then Inl ValueError else Inr (dataset, b))"

section \<open>Properties of the accumulation loop\<close>

lemma upt_add_Cons: "[i..<i + Suc k] = i # [Suc i..<Suc i + k]"
  using upt_conv_Cons [of i "i + Suc k"] by simp

lemma train_body_vars:
  assumes "batch_size_divider cfg \<noteq> 0"
  shows "\<exists>ev v'. train_body cfg n i b v = Inr (ev, v')
     \<and> train_loss v' = train_loss v + fst b / of_int (batch_size_divider cfg)
     \<and> real_batch_index v' = real_batch_index v
          + (if closes (batch_size_divider cfg) n i then 1 else 0)"
  using assms by (simp add: train_body_def Let_def split: prod.splits)

lemma train_batches_vars:
  assumes "batch_size_divider cfg \<noteq> 0"
  shows "\<exists>ev v'. train_batches cfg n i bs v = Inr (ev, v')
     \<and> train_loss v' = train_loss v + (\<Sum>b\<leftarrow>bs. fst b / of_int (batch_size_divider cfg))
     \<and> real_batch_index v' = real_batch_index v
          + length (filter (closes (batch_size_divider cfg) n) [i..<i + length bs])"
proof (induction bs arbitrary: i v)
  case Nil
  then show ?case by simp
next
  case (Cons b bs)
  obtain ev v1 where b: "train_body cfg n i b v = Inr (ev, v1)"
    and tl: "train_loss v1 = train_loss v + fst b / of_int (batch_size_divider cfg)"
    and rb: "real_batch_index v1 = real_batch_index v
          + (if closes (batch_size_divider cfg) n i then 1 else 0)"
    using train_body_vars [OF assms, of n i b v] by blast
  obtain evs v2 where r: "train_batches cfg n (Suc i) bs v1 = Inr (evs, v2)"
    and tl2: "train_loss v2 = train_loss v1 + (\<Sum>b\<leftarrow>bs. fst b / of_int (batch_size_divider cfg))"
    and rb2: "real_batch_index v2 = real_batch_index v1
          + length (filter (closes (batch_size_divider cfg) n) [Suc i..<Suc i + length bs])"
    using Cons.IH [of "Suc i" v1] by blast
  have up: "[i..<i + length (b # bs)] = i # [Suc i..<Suc i + length bs]"
    using upt_add_Cons [of i "length bs"] by simp
  show ?case
    using b r tl tl2 rb rb2 unfolding up by simp
qed

text \<open>The last micro-batch of a non-empty pass always closes a group.\<close>

lemma last_closes: "bs \<noteq> [] \<Longrightarrow> filter (closes d (length bs)) [0..<length bs] \<noteq> []"
proof -
  assume "bs \<noteq> []"
  then have "length bs - 1 \<in> set [0..<length bs]" and "closes d (length bs) (length bs - 1)"
    by (cases bs; simp)+
  then show ?thesis
    by (metis (mono_tags, lifting) filter_empty_conv)
qed



text \<open>
  Claim C10. When the training loader yields no micro-batch, \<^verbatim>\<open>real_batch_index\<close> is
  still 0 at line 140 and the division raises \<^verbatim>\<open>ZeroDivisionError\<close>, whatever the
  settings; nothing in \<^verbatim>\<open>train_loop\<close> or in the epoch loop of \<^verbatim>\<open>train\<close> checks the counter
  or catches the error, so the epoch ends with it.
\<close>

theorem train_loop_empty_raises:
  "train_loop cfg st [] = Inl ZeroDivisionError
   \<and> epoch_body cfg name epoch ([], te) st = Inl ZeroDivisionError"
  by (simp add: train_loop_def epoch_body_def)

section \<open>Gradient events\<close>

lemma wbs_no_grad_event:
  "filter grad_event (fst (write_batch_statistics st l k)) = []"
  by (auto simp: filter_empty_conv write_batch_statistics_def param_histograms_def
      add_image_summary_def add_mask_image_summary_def split: if_splits)

lemma train_body_grad_events:
  assumes "batch_size_divider cfg \<noteq> 0"
  shows "\<exists>ev v'. train_body cfg n i b v = Inr (ev, v')
     \<and> filter grad_event ev =
         (if use_amp cfg then Scaled_backward (fst b / of_int (batch_size_divider cfg))
          else Backward (fst b / of_int (batch_size_divider cfg)))
         # (if closes (batch_size_divider cfg) n i
            then (if use_amp cfg then [Scaler_step, Scaler_update] else [Optimizer_step])
                 @ [Zero_grad]
            else [])"
proof -
  let ?st0 = "(trainer_of v)\<lparr>snapshot := snd b (snapshot (trainer_of v))\<rparr>"
  let ?l = "batch_loss v + fst b / of_int (batch_size_divider cfg)"
  obtain ev1 st1 where w: "write_batch_statistics ?st0 ?l (real_batch_index v) = (ev1, st1)"
    by (cases "write_batch_statistics ?st0 ?l (real_batch_index v)")
  have "filter grad_event ev1 = []"
    using wbs_no_grad_event [of ?st0 ?l "real_batch_index v"] w by simp
  then show ?thesis
    using assms w by (simp add: train_body_def Let_def)
qed

lemma train_batches_grad_events:
  assumes "batch_size_divider cfg \<noteq> 0"
  shows "\<exists>evs v'. train_batches cfg n i bs v = Inr (evs, v')
     \<and> filter grad_event evs =
         concat (map (\<lambda>(j, b).
            (if use_amp cfg then Scaled_backward (fst b / of_int (batch_size_divider cfg))
             else Backward (fst b / of_int (batch_size_divider cfg)))
            # (if closes (batch_size_divider cfg) n j
               then (if use_amp cfg then [Scaler_step, Scaler_update] else [Optimizer_step])
                    @ [Zero_grad]
               else [])) (enumerate i bs))"
proof (induction bs arbitrary: i v)
  case Nil
  then show ?case by simp
next
  case (Cons b bs)
  obtain ev v1 where b: "train_body cfg n i b v = Inr (ev, v1)"
    and e: "filter grad_event ev =
         (if use_amp cfg then Scaled_backward (fst b / of_int (batch_size_divider cfg))
          else Backward (fst b / of_int (batch_size_divider cfg)))
         # (if closes (batch_size_divider cfg) n i
            then (if use_amp cfg then [Scaler_step, Scaler_update] else [Optimizer_step])
                 @ [Zero_grad]
            else [])"
    using train_body_grad_events [OF assms, of n i b v] by blast
  obtain evs v2 where r: "train_batches cfg n (Suc i) bs v1 = Inr (evs, v2)"
    and es: "filter grad_event evs =
         concat (map (\<lambda>(j, b).
            (if use_amp cfg then Scaled_backward (fst b / of_int (batch_size_divider cfg))
             else Backward (fst b / of_int (batch_size_divider cfg)))
            # (if closes (batch_size_divider cfg) n j
               then (if use_amp cfg then [Scaler_step, Scaler_update] else [Optimizer_step])
                    @ [Zero_grad]
               else [])) (enumerate (Suc i) bs))"
    using Cons.IH [of "Suc i" v1] by blast
  show ?case
    using b r by (simp add: e es)
qed

text \<open>
  Claim C3. In a training epoch, the calls that touch gradients are, micro-batch by
  micro-batch in order: the backward pass of the micro-batch, and then, exactly when
  the micro-batch closes a group, one step commit (\<^verbatim>\<open>scaler.step\<close> followed by
  \<^verbatim>\<open>scaler.update\<close> under \<^verbatim>\<open>use_amp\<close>, \<^verbatim>\<open>optimizer.step\<close> otherwise) followed at once by
  \<^verbatim>\<open>zero_grad\<close>. So each closed group has one commit, the gradients are cleared before
  the next backward pass, and a micro-batch that closes no group commits nothing.
\<close>

theorem train_loop_one_step_per_group:
  assumes "batch_size_divider cfg \<noteq> 0" and "bs \<noteq> []"
  shows "\<exists>evs l st'. train_loop cfg st bs = Inr (evs, l, st')
     \<and> filter grad_event evs =
         concat (map (\<lambda>(i, b).
            (if use_amp cfg then Scaled_backward (fst b / of_int (batch_size_divider cfg))
             else Backward (fst b / of_int (batch_size_divider cfg)))
            # (if (int i + 1) mod batch_size_divider cfg = 0 \<or> i + 1 = length bs
               then (if use_amp cfg then [Scaler_step, Scaler_update] else [Optimizer_step])
                    @ [Zero_grad]
               else [])) (enumerate 0 bs))"
proof -
  let ?v0 = "\<lparr>trainer_of = st, train_loss = 0, batch_loss = 0, real_batch_index = 0\<rparr>"
  obtain evs w where r: "train_batches cfg (length bs) 0 bs ?v0 = Inr (evs, w)"
    and es: "filter grad_event evs =
         concat (map (\<lambda>(j, b).
            (if use_amp cfg then Scaled_backward (fst b / of_int (batch_size_divider cfg))
             else Backward (fst b / of_int (batch_size_divider cfg)))
            # (if closes (batch_size_divider cfg) (length bs) j
               then (if use_amp cfg then [Scaler_step, Scaler_update] else [Optimizer_step])
                    @ [Zero_grad]
               else [])) (enumerate 0 bs))"
    using train_batches_grad_events [OF assms(1), of "length bs" 0 bs ?v0] by blast
  obtain evs' w' where r': "train_batches cfg (length bs) 0 bs ?v0 = Inr (evs', w')"
    and rb: "real_batch_index w' = real_batch_index ?v0
          + length (filter (closes (batch_size_divider cfg) (length bs)) [0..<0 + length bs])"
    using train_batches_vars [OF assms(1), of "length bs" 0 bs ?v0] by blast
  have "real_batch_index w \<noteq> 0"
    using r r' rb last_closes [OF assms(2), of "batch_size_divider cfg"] by simp
  then show ?thesis
    using r es by (simp add: train_loop_def)
qed

theorem train_loop_one_step_per_group_witness:
  "(\<exists>evs l st'. train_loop (example_settings 2 False True) example_trainer
                   [(1, id), (3, id), (5, id)] = Inr (evs, l, st')
     \<and> filter grad_event evs =
         [Backward (1 / 2), Backward (3 / 2), Optimizer_step, Zero_grad,
          Backward (5 / 2), Optimizer_step, Zero_grad])
   \<and> (\<exists>evs l st'. train_loop (example_settings 2 True True) example_trainer
                   [(1, id), (3, id), (5, id)] = Inr (evs, l, st')
     \<and> filter grad_event evs =
         [Scaled_backward (1 / 2), Scaled_backward (3 / 2), Scaler_step, Scaler_update, Zero_grad,
          Scaled_backward (5 / 2), Scaler_step, Scaler_update, Zero_grad])"
  using train_loop_one_step_per_group [of "example_settings 2 False True" "[(1, id), (3, id), (5, id)]" example_trainer]
    train_loop_one_step_per_group [of "example_settings 2 True True" "[(1, id), (3, id), (5, id)]" example_trainer]
  by (simp add: example_settings_def)

section \<open>The reporting cadence\<close>







lemma groups_0: "groups d n i 0 = 0"
  by (simp add: groups_def)

lemma groups_Suc: "groups d n i (Suc k) = (if closes d n i then 1 else 0) + groups d n (Suc i) k"
  unfolding groups_def upt_add_Cons by simp






section \<open>Properties of the evaluation loop and of an epoch\<close>

lemma test_body_vars:
  assumes "batch_size_divider cfg \<noteq> 0"
  shows "test_body cfg n i b v =
     Inr \<lparr>tester_of = (tester_of v)\<lparr>f1 := f1 (tester_of v)
                                        + snd b / of_int (batch_size_divider cfg)\<rparr>,
          test_loss = test_loss v + fst b / of_int (batch_size_divider cfg),
          batches_num = batches_num v
             + (if closes (batch_size_divider cfg) n i then 1 else 0)\<rparr>"
  using assms by (simp add: test_body_def Let_def)

lemma test_batches_vars:
  assumes "batch_size_divider cfg \<noteq> 0"
  shows "test_batches cfg n i bs v =
     Inr \<lparr>tester_of = (tester_of v)\<lparr>f1 := f1 (tester_of v)
                + (\<Sum>b\<leftarrow>bs. snd b / of_int (batch_size_divider cfg))\<rparr>,
          test_loss = test_loss v + (\<Sum>b\<leftarrow>bs. fst b / of_int (batch_size_divider cfg)),
          batches_num = batches_num v + groups (batch_size_divider cfg) n i (length bs)\<rparr>"
proof (induction bs arbitrary: i v)
  case Nil
  then show ?case by (simp add: groups_0)
next
  case (Cons b bs)
  show ?case
    by (simp add: test_body_vars [OF assms] Cons.IH groups_Suc add.assoc)
qed

lemma test_batches_zero_divider:
  assumes "batch_size_divider cfg = 0"
  shows "test_batches cfg n i bs v = (if bs = [] then Inr v else Inl ZeroDivisionError)"
  using assms by (cases bs) (simp_all add: test_body_def)

lemma test_loop_result:
  assumes "batch_size_divider cfg \<noteq> 0"
  shows "test_loop cfg n st bs =
     (if groups (batch_size_divider cfg) n 0 (length bs) = 0 then Inl ZeroDivisionError
      else Inr (((\<Sum>b\<leftarrow>bs. fst b / of_int (batch_size_divider cfg))
                   / real (groups (batch_size_divider cfg) n 0 (length bs)),
                 groups (batch_size_divider cfg) n 0 (length bs)),
                st\<lparr>f1 := f1 st + (\<Sum>b\<leftarrow>bs. snd b / of_int (batch_size_divider cfg))\<rparr>))"
  by (simp add: test_loop_def test_batches_vars [OF assms])

lemma test_loop_zero_divider:
  assumes "batch_size_divider cfg = 0"
  shows "test_loop cfg n st bs = Inl ZeroDivisionError"
  by (simp add: test_loop_def test_batches_zero_divider [OF assms])

lemma test_loop_batches_num_pos:
  "test_loop cfg n st bs = Inr ((l, bn), st') \<Longrightarrow> 0 < bn"
  by (auto simp: test_loop_def split: sum.splits if_splits)

lemma train_batches_error:
  "train_batches cfg n i bs v = Inl e \<Longrightarrow> e = ZeroDivisionError"
proof (induction bs arbitrary: i v)
  case Nil
  then show ?case by simp
next
  case (Cons b bs)
  show ?case
  proof (cases "batch_size_divider cfg = 0")
    case True
    then show ?thesis using Cons.prems by (simp add: train_body_def)
  next
    case False
    obtain ev v1 where "train_body cfg n i b v = Inr (ev, v1)"
      using train_body_vars [OF False, of n i b v] by (elim exE conjE)
    then show ?thesis
      using Cons.prems Cons.IH [of "Suc i" v1] by (simp split: sum.splits prod.splits)
  qed
qed

lemma train_loop_error:
  "train_loop cfg st bs = Inl e \<Longrightarrow> e = ZeroDivisionError"
  by (auto simp: train_loop_def split: sum.splits if_splits dest: train_batches_error)

lemma test_loop_error:
  "test_loop cfg n st bs = Inl e \<Longrightarrow> e = ZeroDivisionError"
  by (cases "batch_size_divider cfg = 0")
     (simp_all add: test_loop_zero_divider test_loop_result split: if_splits)

lemma groups_conv_filter: "groups d n 0 k = length (filter (closes d n) [0..<k])"
  by (simp add: groups_def)

text \<open>
  Claim C4. When no evaluation micro-batch meets the boundary test of lines 158-159,
  \<^verbatim>\<open>batches_num\<close> is 0 at line 162 and \<^verbatim>\<open>test_loop\<close> raises \<^verbatim>\<open>ZeroDivisionError\<close>; the
  epoch ends with that error, so the division of the F1 accumulator at line 195 is not
  reached with a zero count and no value is produced from it.
\<close>

theorem test_loop_zero_batches_raises:
  assumes "\<forall>i<length te. \<not> ((int i + 1) mod batch_size_divider cfg = 0 \<or> i + 1 = length tr)"
  shows "test_loop cfg (length tr) st te = Inl ZeroDivisionError
       \<and> epoch_body cfg name epoch (tr, te) st = Inl ZeroDivisionError"
proof -
  have g: "groups (batch_size_divider cfg) (length tr) 0 (length te) = 0"
    using assms by (simp add: groups_def filter_empty_conv)
  have t: "test_loop cfg (length tr) s te = Inl ZeroDivisionError" for s :: "'a trainer"
    using g by (cases "batch_size_divider cfg = 0")
      (simp_all add: test_loop_zero_divider test_loop_result)
  have "epoch_body cfg name epoch (tr, te) st = Inl ZeroDivisionError"
    by (auto simp: epoch_body_def t Let_def split: sum.splits dest: train_loop_error)
  then show ?thesis using t by simp
qed

theorem test_loop_zero_batches_raises_witness:
  "test_loop (example_settings 4 False False) 10 example_trainer [(1, 1), (1, 1)]
     = Inl ZeroDivisionError
   \<and> epoch_body (example_settings 4 False False) ''magicpoint'' 0
        (replicate 10 (1, id), [(1, 1), (1, 1)]) example_trainer
     = Inl ZeroDivisionError"
proof -
  have h: "\<forall>i<length [(1::real, 1::real), (1, 1)].
             \<not> ((int i + 1) mod batch_size_divider (example_settings 4 False False) = 0
                \<or> i + 1 = length (replicate 10 (1::real, id :: nat snapshot \<Rightarrow> nat snapshot)))"
    by (auto simp: example_settings_def less_Suc_eq numeral_2_eq_2)
  show ?thesis
    using test_loop_zero_batches_raises [OF h, of example_trainer "''magicpoint''" 0]
    by simp
qed


lemma train_loop_returns:
  assumes "batch_size_divider cfg \<noteq> 0" and "bs \<noteq> []"
  shows "\<exists>evs l st'. train_loop cfg st bs = Inr (evs, l, st')"
proof -
  let ?v0 = "\<lparr>trainer_of = st, train_loss = 0, batch_loss = 0, real_batch_index = 0\<rparr>"
  obtain evs w where r: "train_batches cfg (length bs) 0 bs ?v0 = Inr (evs, w)"
    and rb: "real_batch_index w = real_batch_index ?v0
          + length (filter (closes (batch_size_divider cfg) (length bs)) [0..<0 + length bs])"
    using train_batches_vars [OF assms(1), of "length bs" 0 bs ?v0] by (elim exE conjE)
  have "real_batch_index w \<noteq> 0"
    using rb last_closes [OF assms(2), of "batch_size_divider cfg"] by simp
  then show ?thesis
    using r by (simp add: train_loop_def)
qed

text \<open>
  Claim C7. Each evaluation micro-batch adds its F1 metric divided by the divider to
  the accumulator; an epoch that completes reports (prints, and writes under
  \<^verbatim>\<open>F1/test\<close> when statistics are on) the sum of these contributions divided by
  \<^verbatim>\<open>batches_num\<close>, whatever the accumulator held before the epoch: it is reset before
  the evaluation pass. \<^verbatim>\<open>batches_num\<close> counts the boundaries met with the training
  loader's length.
\<close>

theorem epoch_f1_normalised:
  assumes "batch_size_divider cfg \<noteq> 0" and "tr \<noteq> []"
    and "filter (\<lambda>i. (int i + 1) mod batch_size_divider cfg = 0 \<or> i + 1 = length tr)
           [0..<length te] \<noteq> []"
  shows "(\<exists>v'. test_body cfg n i b v = Inr v'
            \<and> f1 (tester_of v') = f1 (tester_of v) + snd b / of_int (batch_size_divider cfg))
       \<and> (\<exists>evs st'. epoch_body cfg name epoch (tr, te) st = Inr (evs, st')
            \<and> f1 st' = (\<Sum>b\<leftarrow>te. snd b / of_int (batch_size_divider cfg))
                 / real (length (filter (\<lambda>i. (int i + 1) mod batch_size_divider cfg = 0
                                            \<or> i + 1 = length tr) [0..<length te]))
            \<and> Print_test_f1 (f1 st') \<in> set evs
            \<and> (write_statistics cfg \<longrightarrow> Add_scalar ''F1/test'' (f1 st') epoch \<in> set evs))"
proof -
  let ?d = "batch_size_divider cfg"
  let ?G = "groups ?d (length tr) 0 (length te)"
  have G: "?G = length (filter (closes ?d (length tr)) [0..<length te])"
    by (rule groups_conv_filter)
  have G0: "?G \<noteq> 0" using assms(3) unfolding G by simp
  obtain ev1 l st1 where tl: "train_loop cfg st tr = Inr (ev1, l, st1)"
    using train_loop_returns [OF assms(1,2), of st] by (elim exE)
  let ?st2 = "st1\<lparr>f1 := 0, snapshot := (snapshot st1)\<lparr>last_image := None, last_prob_map := None\<rparr>\<rparr>"
  have te: "test_loop cfg (length tr) ?st2 te =
     Inr (((\<Sum>b\<leftarrow>te. fst b / of_int ?d) / real ?G, ?G),
          ?st2\<lparr>f1 := f1 ?st2 + (\<Sum>b\<leftarrow>te. snd b / of_int ?d)\<rparr>)"
    using G0 by (simp add: test_loop_result [OF assms(1)])
  have "\<exists>evs st'. epoch_body cfg name epoch (tr, te) st = Inr (evs, st')
            \<and> f1 st' = (\<Sum>b\<leftarrow>te. snd b / of_int ?d) / real ?G
            \<and> Print_test_f1 (f1 st') \<in> set evs
            \<and> (write_statistics cfg \<longrightarrow> Add_scalar ''F1/test'' (f1 st') epoch \<in> set evs)"
    by (simp add: epoch_body_def tl te Let_def)
  then show ?thesis
    unfolding G by (simp add: test_body_vars [OF assms(1)])
qed

theorem epoch_f1_normalised_witness:
  "\<exists>evs st'. epoch_body (example_settings 4 False True) ''magicpoint'' 0
        (replicate 10 (1, id), replicate 8 (2, 1)) example_trainer = Inr (evs, st')
     \<and> f1 st' = (8 * (1 / 4)) / 2
     \<and> Print_test_f1 (f1 st') \<in> set evs
     \<and> Add_scalar ''F1/test'' (f1 st') 0 \<in> set evs"
proof -
  let ?cfg = "example_settings 4 False True"
  let ?tr = "replicate 10 (1::real, id :: nat snapshot \<Rightarrow> nat snapshot)"
  let ?te = "replicate 8 (2::real, 1::real)"
  have d: "batch_size_divider ?cfg = 4" and w: "write_statistics ?cfg"
    by (simp_all add: example_settings_def)
  have c: "filter (\<lambda>i. (int i + 1) mod 4 = 0 \<or> i + 1 = 10) [0..<8] = [3, 7]"
    by code_simp
  have h1: "batch_size_divider ?cfg \<noteq> 0" unfolding d by simp
  have h2: "?tr \<noteq> []" by simp
  have h3: "filter (\<lambda>i. (int i + 1) mod batch_size_divider ?cfg = 0 \<or> i + 1 = length ?tr)
           [0..<length ?te] \<noteq> []"
    unfolding d length_replicate c by simp
  have s: "(\<Sum>b\<leftarrow>?te. snd b / of_int (batch_size_divider ?cfg)) = 8 * (1 / 4)"
    unfolding d by (simp add: sum_list_replicate)
  have l: "real (length (filter (\<lambda>i. (int i + 1) mod batch_size_divider ?cfg = 0
                                            \<or> i + 1 = length ?tr) [0..<length ?te])) = 2"
    unfolding d length_replicate c by simp
  from epoch_f1_normalised [OF h1 h2 h3, of 0 0 "(2, 1)"
      "\<lparr>tester_of = example_trainer, test_loss = 0, batches_num = 0\<rparr>" "''magicpoint''" 0 example_trainer]
  show ?thesis
    unfolding s l using w by blast
qed





section \<open>The epoch loop\<close>











lemma infix_append:
  assumes "ys = pre @ xs @ post"
  shows "\<exists>pre' post'. as @ ys @ bs = pre' @ xs @ post'"
  unfolding assms by (intro exI [of _ "as @ pre"] exI [of _ "post @ bs"]) simp










section \<open>The boundary test of the evaluation loop\<close>

lemma filter_length_strict:
  assumes "\<forall>x\<in>set xs. P x \<longrightarrow> Q x" and "y \<in> set xs" and "Q y" and "\<not> P y"
  shows "length (filter P xs) < length (filter Q xs)"
  using assms
proof (induction xs)
  case Nil
  then show ?case by simp
next
  case (Cons x xs)
  have le: "length (filter P xs) \<le> length (filter Q xs)"
  proof -
    have "filter P xs = filter P (filter Q xs)"
      using Cons.prems(1) by (auto simp: filter_filter intro: filter_cong)
    then have "length (filter P xs) = length (filter P (filter Q xs))" by simp
    also have "\<dots> \<le> length (filter Q xs)" by (rule length_filter_le)
    finally show ?thesis .
  qed
  show ?case
  proof (cases "y = x")
    case True
    then show ?thesis using Cons.prems(3,4) le by simp
  next
    case False
    then have "length (filter P xs) < length (filter Q xs)"
      using Cons.IH Cons.prems by simp
    then show ?thesis using Cons.prems(1) by auto
  qed
qed

lemma undercount_divider:
  assumes "0 < m" and "m < n \<or> n = 0"
  shows "groups (int m + 1) n 0 m < groups (int m + 1) m 0 m"
proof -
  have "\<forall>i<m. \<not> closes (int m + 1) n i"
  proof (intro allI impI)
    fix i assume i: "i < m"
    have "(int i + 1) mod (int m + 1) = int i + 1"
      using i by (simp add: mod_pos_pos_trivial)
    then show "\<not> closes (int m + 1) n i"
      using i assms(2) by auto
  qed
  then have z: "groups (int m + 1) n 0 m = 0"
    by (simp add: groups_def filter_empty_conv)
  have "m - 1 \<in> set [0..<m]" and "closes (int m + 1) m (m - 1)"
    using assms(1) by simp_all
  then have "filter (closes (int m + 1) m) [0..<m] \<noteq> []"
    by (metis (mono_tags, lifting) filter_empty_conv)
  then have "0 < groups (int m + 1) m 0 m"
    by (simp add: groups_def)
  then show ?thesis using z by simp
qed

lemma overcount_divider:
  assumes "0 < n" and "n < m"
  shows "groups (int m) m 0 m < groups (int m) n 0 m"
proof -
  have sub: "\<forall>i\<in>set [0..<m]. closes (int m) m i \<longrightarrow> closes (int m) n i"
  proof (intro ballI impI)
    fix i assume "i \<in> set [0..<m]" and c: "closes (int m) m i"
    show "closes (int m) n i"
    proof (cases "(int i + 1) mod int m = 0")
      case True
      then show ?thesis by simp
    next
      case False
      then have "i + 1 = m" using c by simp
      then have "int i + 1 = int m" by simp
      then have "(int i + 1) mod int m = 0" by simp
      then show ?thesis by simp
    qed
  qed
  have y: "n - 1 \<in> set [0..<m]" using assms by simp
  have q: "closes (int m) n (n - 1)" using assms(1) by simp
  have "(int (n - 1) + 1) mod int m = int n"
    using assms by (simp add: mod_pos_pos_trivial of_nat_diff)
  then have p: "\<not> closes (int m) m (n - 1)"
    using assms by simp
  show ?thesis
    unfolding groups_def using filter_length_strict [OF sub y q p] by simp
qed

text \<open>
  Claim C5. In the evaluation loop \<^verbatim>\<open>batches_num\<close> is incremented at micro-batch \<open>i\<close>
  exactly when \<open>(i + 1) mod batch_size_divider = 0\<close> or \<open>i + 1\<close> is the length \<open>n\<close> of the
  training loader, so that after the pass it is the number of such indices below the
  length of the evaluation loader. The number of accumulation groups of the evaluation
  pass is the same count taken with the evaluation loader's own length. When the two
  lengths differ and the evaluation pass is not empty, some divider makes the two
  numbers differ: \<^verbatim>\<open>batches_num\<close> is too small for some divider when the training loader
  is the longer one (or is empty), too large for some divider when it is the shorter one.
\<close>

theorem test_loop_counts_train_boundary:
  assumes "batch_size_divider cfg \<noteq> 0"
  shows "(\<exists>v'. test_body cfg n i b (v :: 'i test_vars) = Inr v'
           \<and> batches_num v' = batches_num v
                + (if (int i + 1) mod batch_size_divider cfg = 0 \<or> i + 1 = n then 1 else 0))
       \<and> (\<exists>v'. test_batches cfg n 0 te
                   \<lparr>tester_of = (st :: 'i trainer), test_loss = 0, batches_num = 0\<rparr> = Inr v'
           \<and> batches_num v' =
                length (filter (\<lambda>i. (int i + 1) mod batch_size_divider cfg = 0 \<or> i + 1 = n)
                          [0..<length te]))
       \<and> (te \<noteq> [] \<and> (length te < n \<or> n = 0) \<longrightarrow>
            (\<exists>d v'. 1 \<le> d
               \<and> test_batches (cfg\<lparr>batch_size_divider := d\<rparr>) n 0 te
                    \<lparr>tester_of = st, test_loss = 0, batches_num = 0\<rparr> = Inr v'
               \<and> batches_num v' <
                    length (filter (\<lambda>i. (int i + 1) mod d = 0 \<or> i + 1 = length te)
                              [0..<length te])))
       \<and> (0 < n \<and> n < length te \<longrightarrow>
            (\<exists>d v'. 1 \<le> d
               \<and> test_batches (cfg\<lparr>batch_size_divider := d\<rparr>) n 0 te
                    \<lparr>tester_of = st, test_loss = 0, batches_num = 0\<rparr> = Inr v'
               \<and> length (filter (\<lambda>i. (int i + 1) mod d = 0 \<or> i + 1 = length te)
                              [0..<length te])
                    < batches_num v'))"
proof -
  let ?v0 = "\<lparr>tester_of = st, test_loss = 0, batches_num = 0\<rparr>"
  let ?m = "length te"
  have run: "\<exists>v'. test_batches (cfg\<lparr>batch_size_divider := d\<rparr>) n 0 te ?v0 = Inr v'
                \<and> batches_num v' = groups d n 0 ?m" if "d \<noteq> 0" for d
    using that test_batches_vars [of "cfg\<lparr>batch_size_divider := d\<rparr>" n 0 te ?v0] by simp
  have A: "\<exists>v'. test_body cfg n i b v = Inr v'
           \<and> batches_num v' = batches_num v
                + (if closes (batch_size_divider cfg) n i then 1 else 0)"
    by (simp add: test_body_vars [OF assms])
  have B: "\<exists>v'. test_batches cfg n 0 te ?v0 = Inr v'
           \<and> batches_num v' = length (filter (closes (batch_size_divider cfg) n) [0..<?m])"
    using run [OF assms] by (simp add: groups_def)
  have C: "\<exists>d v'. 1 \<le> d
               \<and> test_batches (cfg\<lparr>batch_size_divider := d\<rparr>) n 0 te ?v0 = Inr v'
               \<and> batches_num v' < length (filter (closes d ?m) [0..<?m])"
    if "te \<noteq> [] \<and> (?m < n \<or> n = 0)"
  proof -
    have m: "0 < ?m" and n: "?m < n \<or> n = 0" using that by simp_all
    have d: "int ?m + 1 \<noteq> 0" by simp
    obtain v' where r: "test_batches (cfg\<lparr>batch_size_divider := int ?m + 1\<rparr>) n 0 te ?v0 = Inr v'"
      and c: "batches_num v' = groups (int ?m + 1) n 0 ?m"
      using run [OF d] by (elim exE conjE)
    have "batches_num v' < length (filter (closes (int ?m + 1) ?m) [0..<?m])"
      using undercount_divider [OF m n] unfolding c by (simp add: groups_def)
    then show ?thesis
      using r by (intro exI [of _ "int ?m + 1"] exI [of _ v']) simp
  qed
  have D: "\<exists>d v'. 1 \<le> d
               \<and> test_batches (cfg\<lparr>batch_size_divider := d\<rparr>) n 0 te ?v0 = Inr v'
               \<and> length (filter (closes d ?m) [0..<?m]) < batches_num v'"
    if "0 < n \<and> n < ?m"
  proof -
    have n: "0 < n" and nm: "n < ?m" using that by simp_all
    have d: "int ?m \<noteq> 0" using n nm by auto
    obtain v' where r: "test_batches (cfg\<lparr>batch_size_divider := int ?m\<rparr>) n 0 te ?v0 = Inr v'"
      and c: "batches_num v' = groups (int ?m) n 0 ?m"
      using run [OF d] by (elim exE conjE)
    have "length (filter (closes (int ?m) ?m) [0..<?m]) < batches_num v'"
      using overcount_divider [OF n nm] unfolding c by (simp add: groups_def)
    then show ?thesis
      using r n nm by (intro exI [of _ "int ?m"] exI [of _ v']) auto
  qed
  from C have C': "te \<noteq> [] \<and> (?m < n \<or> n = 0) \<longrightarrow>
      (\<exists>d v'. 1 \<le> d
               \<and> test_batches (cfg\<lparr>batch_size_divider := d\<rparr>) n 0 te ?v0 = Inr v'
               \<and> batches_num v' < length (filter (closes d ?m) [0..<?m]))"
    by (rule impI)
  from D have D': "0 < n \<and> n < ?m \<longrightarrow>
      (\<exists>d v'. 1 \<le> d
               \<and> test_batches (cfg\<lparr>batch_size_divider := d\<rparr>) n 0 te ?v0 = Inr v'
               \<and> length (filter (closes d ?m) [0..<?m]) < batches_num v')"
    by (rule impI)
  show ?thesis
    using A B C' D' by (intro conjI)
qed


theorem test_loop_counts_train_boundary_witness:
  "(\<exists>v'. test_batches (example_settings 4 False False) 12 0 (replicate 10 (2, 1))
            \<lparr>tester_of = example_trainer, test_loss = 0, batches_num = 0\<rparr> = Inr v'
      \<and> batches_num v' = 2)
   \<and> length (filter (\<lambda>i. (int i + 1) mod 4 = 0 \<or> i + 1 = 10) [0..<10]) = 3
   \<and> (\<exists>v'. test_batches (example_settings 4 False False) 5 0 (replicate 8 (2, 1))
            \<lparr>tester_of = example_trainer, test_loss = 0, batches_num = 0\<rparr> = Inr v'
      \<and> batches_num v' = 3)
   \<and> length (filter (\<lambda>i. (int i + 1) mod 4 = 0 \<or> i + 1 = 8) [0..<8]) = 2"
proof -
  let ?cfg = "example_settings 4 False False"
  have d: "batch_size_divider ?cfg = 4" by (simp add: example_settings_def)
  have h: "batch_size_divider ?cfg \<noteq> 0" unfolding d by simp
  have c1: "length (filter (\<lambda>i. (int i + 1) mod 4 = 0 \<or> i + 1 = 12) [0..<10]) = 2"
    and c2: "length (filter (\<lambda>i. (int i + 1) mod 4 = 0 \<or> i + 1 = 10) [0..<10]) = 3"
    and c3: "length (filter (\<lambda>i. (int i + 1) mod 4 = 0 \<or> i + 1 = 5) [0..<8]) = 3"
    and c4: "length (filter (\<lambda>i. (int i + 1) mod 4 = 0 \<or> i + 1 = 8) [0..<8]) = 2"
    by code_simp+
  have a: "\<exists>v'. test_batches ?cfg 12 0 (replicate 10 (2, 1))
            \<lparr>tester_of = example_trainer, test_loss = 0, batches_num = 0\<rparr> = Inr v'
      \<and> batches_num v' = 2"
    using test_loop_counts_train_boundary [OF h, of 12 0 "(2, 1)"
        "\<lparr>tester_of = example_trainer, test_loss = 0, batches_num = 0\<rparr>"
        "replicate 10 (2, 1)" example_trainer]
    unfolding d length_replicate c1 by (elim conjE)
  have b: "\<exists>v'. test_batches ?cfg 5 0 (replicate 8 (2, 1))
            \<lparr>tester_of = example_trainer, test_loss = 0, batches_num = 0\<rparr> = Inr v'
      \<and> batches_num v' = 3"
    using test_loop_counts_train_boundary [OF h, of 5 0 "(2, 1)"
        "\<lparr>tester_of = example_trainer, test_loss = 0, batches_num = 0\<rparr>"
        "replicate 8 (2, 1)" example_trainer]
    unfolding d length_replicate c3 by (elim conjE)
  show ?thesis using a c2 b c4 by (intro conjI)
qed

section \<open>The constructor\<close>

lemma init_fails_iff:
  "(\<exists>e. init DataLoader cfg train_dataset test_dataset = Inl e) =
     (batch_size_divider cfg = 0
      \<or> (\<exists>e. DataLoader train_dataset (batch_size cfg div batch_size_divider cfg) = Inl e)
      \<or> (\<exists>e. DataLoader test_dataset (batch_size cfg div batch_size_divider cfg) = Inl e))"
  by (auto simp: init_def py_floordiv_def split: sum.splits)

text \<open>
  Claim C8. The constructor has no check of its own. It fails on a zero divider, where
  \<^verbatim>\<open>//\<close> raises, and it hands \<^verbatim>\<open>batch_size // batch_size_divider\<close> to the loader
  constructor; with a loader constructor that rejects a batch size below 1, as torch's
  does, every configuration whose micro-batch size is below 1 fails in the constructor,
  so that no trainer exists on which \<^verbatim>\<open>train\<close> could be called.
\<close>

theorem init_rejects_small_micro_batch:
  assumes "\<forall>dataset b. b < 1 \<longrightarrow> (\<exists>e. DataLoader dataset b = Inl e)"
    and "batch_size_divider cfg = 0 \<or> batch_size cfg div batch_size_divider cfg < 1"
  shows "\<exists>e. init DataLoader cfg train_dataset test_dataset = Inl e"
  using assms unfolding init_fails_iff by blast

theorem init_rejects_small_micro_batch_witness:
  "(\<exists>e. init checking_loader ((example_settings 4 False False)\<lparr>batch_size := 3\<rparr>)
           ''train'' ''test'' = (Inl e :: py_error + (string \<times> int, nat) base_trainer))
   \<and> (\<exists>e. init checking_loader (example_settings 0 False False)
           ''train'' ''test'' = (Inl e :: py_error + (string \<times> int, nat) base_trainer))"
proof -
  have l: "\<forall>dataset b. b < 1 \<longrightarrow> (\<exists>e. checking_loader (dataset :: string) b = Inl e)"
    by (simp add: checking_loader_def)
  have a: "batch_size_divider ((example_settings 4 False False)\<lparr>batch_size := 3\<rparr>) = 0
      \<or> batch_size ((example_settings 4 False False)\<lparr>batch_size := 3\<rparr>)
          div batch_size_divider ((example_settings 4 False False)\<lparr>batch_size := 3\<rparr>) < 1"
    by (simp add: example_settings_def)
  have b: "batch_size_divider (example_settings 0 False False) = 0
      \<or> batch_size (example_settings 0 False False)
          div batch_size_divider (example_settings 0 False False) < 1"
    by (simp add: example_settings_def)
  show ?thesis
    using init_rejects_small_micro_batch [OF l a, of "''train''" "''test''"]
      init_rejects_small_micro_batch [OF l b, of "''train''" "''test''"]
    by (rule conjI)
qed

end
